theory Spec2Isabelle
  imports Complex_Main "HOL-Library.Log_Nat" "HOL-Library.Monad_Syntax" "HOL-Library.Word"
begin

section \<open>The PWM fan controller \<^verbatim>\<open>fan-control.c\<close>\<close>

text \<open>
  A shallow embedding of \<^verbatim>\<open>src/fan-control.c\<close>. The C globals are one record, the
  functions take it and return it updated, and the GPIO library is a record of the pin
  state with a journal of the calls made. A result \<open>None\<close> stands for undefined behaviour
  of the C program (signed overflow, a floating value converted to \<open>int\<close> that does not
  fit, a null \<open>FILE *\<close> passed to \<open>fscanf\<close>, a write past the end of an array).
\<close>

subsection \<open>C arithmetic: \<open>int\<close>\<close>

text \<open>
  \<open>int\<close> has 32 bits on every Raspberry Pi. Its values are modelled by the integers of
  that range; an operation whose mathematical result leaves the range is undefined.
\<close>

definition INT_MIN :: int where
  "INT_MIN = - 2147483648"

definition INT_MAX :: int where
  "INT_MAX = 2147483647"

definition int_range :: "int \<Rightarrow> bool" where
  "int_range n = (INT_MIN \<le> n \<and> n \<le> INT_MAX)"

definition int_sub :: "int \<Rightarrow> int \<Rightarrow> int option" where
  "int_sub a b = (if int_range (a - b) then Some (a - b) else None)"

text \<open>C's \<open>/\<close> on \<open>int\<close> truncates towards zero (HOL's \<open>div\<close> rounds down).\<close>

definition int_div :: "int \<Rightarrow> int \<Rightarrow> int" where
  "int_div a b = (if (a < 0) = (b < 0) then \<bar>a\<bar> div \<bar>b\<bar> else - (\<bar>a\<bar> div \<bar>b\<bar>))"

subsection \<open>C arithmetic: \<open>float\<close> and \<open>double\<close>\<close>

text \<open>
  \<open>float\<close> and \<open>double\<close> are IEEE 754 binary32 and binary64, every operation rounded to
  nearest, ties to even, in the type of its operands (the ARM floating-point unit;
  \<^verbatim>\<open>FLT_EVAL_METHOD\<close> is 0). A floating value is modelled by the rational it denotes.
  \<open>fl p x\<close> rounds \<open>x\<close> to \<open>p\<close> significant bits: \<open>ilog2 \<bar>x\<bar>\<close> is the exponent of the
  binade of \<open>x\<close>, \<open>q\<close> the spacing of the \<open>p\<close>-bit values in it, and \<open>rne\<close> rounds the
  multiple to the nearest integer, a tie to the even one.

  The exponent range is not modelled. Every floating value of this program comes from at
  most two \<open>int\<close> operands and the constants 100, 1000 and 0.5, so that its magnitude is
  0 or lies between \<open>2 powi (-40)\<close> and \<open>2 powi 70\<close>, far inside the normal range of
  binary32 (\<open>2 powi (-126)\<close> to \<open>2 powi 128\<close>); the one division by zero is a branch of
  \<open>setFanRpm_rpm\<close>.
\<close>

definition ilog2 :: "rat \<Rightarrow> int" where
  "ilog2 x = (let (a, b) = quotient_of x; e = bitlen a - bitlen b
              in if 2 powi e \<le> x then e else e - 1)"

definition rne :: "rat \<Rightarrow> int" where
  "rne y = (let n = \<lfloor>y\<rfloor>; r = y - of_int n
            in if r < 1 / 2 then n else if 1 / 2 < r then n + 1
               else if even n then n else n + 1)"

definition fl :: "nat \<Rightarrow> rat \<Rightarrow> rat" where
  "fl p x = (if x = 0 then 0
             else let q = 2 powi (ilog2 \<bar>x\<bar> - int p + 1) in of_int (rne (x / q)) * q)"

definition int_to_float :: "int \<Rightarrow> rat" where
  "int_to_float n = fl 24 (of_int n)"

definition float_div :: "rat \<Rightarrow> rat \<Rightarrow> rat" where
  "float_div x y = fl 24 (x / y)"

definition float_mul :: "rat \<Rightarrow> rat \<Rightarrow> rat" where
  "float_mul x y = fl 24 (x * y)"

text \<open>A \<open>float\<close> converts to \<open>double\<close> unchanged, so the sum below takes it as it is.\<close>

definition double_add :: "rat \<Rightarrow> rat \<Rightarrow> rat" where
  "double_add x y = fl 53 (x + y)"

text \<open>
  Conversion of a floating value to \<open>int\<close> drops the fraction; it is undefined when the
  integral part is not an \<open>int\<close> (C11 6.3.1.4).
\<close>

definition float_to_int :: "rat \<Rightarrow> int option" where
  "float_to_int x = (let n = (if 0 \<le> x then \<lfloor>x\<rfloor> else \<lceil>x\<rceil>)
                     in if int_range n then Some n else None)"

subsection \<open>The globals\<close>

text \<open>
  The file-scope variables of lines 15 to 25, and \<open>lastRpm\<close>, the \<open>static\<close> local of
  \<open>setFanRpm\<close> (line 96), which has the same lifetime.
\<close>

record globals =
  PWM_PIN :: int
  FREQUENCY :: int
  RPM_MAX :: int
  RPM_MIN :: int
  RPM_OFF :: int
  TEMP_MAX :: int
  TEMP_LOW :: int
  WAIT :: int
  origPwmPinMode :: int
  tempLimitDiffPct :: rat
  thermalFilename :: string
  lastRpm :: int

definition globals_init :: globals where
  "globals_init =
     \<lparr>PWM_PIN = 18, FREQUENCY = 25000, RPM_MAX = 5000, RPM_MIN = 1500, RPM_OFF = 0,
      TEMP_MAX = 55, TEMP_LOW = 40, WAIT = 5000, origPwmPinMode = - 1,
      tempLimitDiffPct = 0,
      thermalFilename = ''/sys/class/thermal/thermal_zone0/temp'',
      lastRpm = 0\<rparr>"

subsection \<open>\<open>initFanControl\<close>\<close>

text \<open>
  What \<open>fopen\<close> and \<open>fscanf\<close> make of \<^verbatim>\<open>/opt/gpio/fan/params.conf\<close>: the file is
  \<open>Missing\<close> (\<open>fopen\<close> returns \<open>NULL\<close>), or it is \<open>Scanned ds s\<close>, where \<open>ds\<close> are the
  integers \<open>fscanf\<close> converted for the leading \<open>%d\<close> directives of \<open>confFormat\<close> before the
  input ended or stopped matching, and \<open>s\<close> the word it converted for the final \<open>%s\<close>.
  \<open>fscanf\<close> stores each converted item through the corresponding pointer, in the order
  of the directives, and stops at the first item it cannot convert (C11 7.21.6.2): the
  file \<^verbatim>\<open>PWM_PIN=12 RPM_MAX=x\<close> is \<open>Scanned [12] None\<close>.
\<close>

datatype conf_file = Missing | Scanned "int list" "string option"

text \<open>The pointer arguments of the \<open>fscanf\<close> call of line 43, in order.\<close>

definition conf_targets :: "(int \<Rightarrow> globals \<Rightarrow> globals) list" where
  "conf_targets =
     [\<lambda>d g. g\<lparr>PWM_PIN := d\<rparr>, \<lambda>d g. g\<lparr>RPM_MAX := d\<rparr>, \<lambda>d g. g\<lparr>RPM_MIN := d\<rparr>,
      \<lambda>d g. g\<lparr>RPM_OFF := d\<rparr>, \<lambda>d g. g\<lparr>TEMP_MAX := d\<rparr>, \<lambda>d g. g\<lparr>TEMP_LOW := d\<rparr>,
      \<lambda>d g. g\<lparr>WAIT := d\<rparr>]"

text \<open>
  \<open>thermalFilename\<close> is an array of 38 \<open>char\<close> (its initialiser has 37 characters): a
  longer word written by \<open>%s\<close> runs past its end.
\<close>

definition fscanf_conf :: "int list \<Rightarrow> string option \<Rightarrow> globals \<Rightarrow> globals option" where
  "fscanf_conf ds s g =
     (let g1 = fold (\<lambda>(store, d). store d) (zip conf_targets ds) g
      in if length ds < length conf_targets then Some g1
         else case s of
                None \<Rightarrow> Some g1
              | Some w \<Rightarrow> if length w < 38 then Some (g1\<lparr>thermalFilename := w\<rparr>) else None)"

definition initFanControl :: "conf_file \<Rightarrow> globals \<Rightarrow> globals option" where
  "initFanControl confFile g = do {
     g1 \<leftarrow> (case confFile of Missing \<Rightarrow> Some g | Scanned ds s \<Rightarrow> fscanf_conf ds s g);
     d \<leftarrow> int_sub (TEMP_MAX g1) (TEMP_LOW g1);
     Some (g1\<lparr>tempLimitDiffPct := float_div (int_to_float d) (int_to_float 100)\<rparr>)
   }"

subsection \<open>The GPIO library\<close>

text \<open>
  Modelled from the spec: the GPIO and PWM capability (pigpio, an external library that
  is not part of the repository), which section 4.2 describes as ``set pin mode'', ``query
  pin mode'', ``set PWM frequency/range'' and ``write PWM duty value''. The state is what
  these set and query, and \<open>calls\<close> is the journal of the calls that change it, oldest
  first.
\<close>

datatype gpio_call =
    SetMode int int
  | SetPWMfrequency int int
  | SetPWMrange int int
  | PWM int int
  | Terminate

record gpio =
  pin_mode :: "int \<Rightarrow> int"
  pwm_frequency :: "int \<Rightarrow> int"
  pwm_range :: "int \<Rightarrow> int"
  pwm_duty :: "int \<Rightarrow> int"
  calls :: "gpio_call list"

definition PI_OUTPUT :: int where
  "PI_OUTPUT = 1"

definition gpioGetMode :: "int \<Rightarrow> gpio \<Rightarrow> int" where
  "gpioGetMode pin h = pin_mode h pin"

definition gpioSetMode :: "int \<Rightarrow> int \<Rightarrow> gpio \<Rightarrow> gpio" where
  "gpioSetMode pin m h = h\<lparr>pin_mode := (pin_mode h)(pin := m), calls := calls h @ [SetMode pin m]\<rparr>"

definition gpioSetPWMfrequency :: "int \<Rightarrow> int \<Rightarrow> gpio \<Rightarrow> gpio" where
  "gpioSetPWMfrequency pin f h =
     h\<lparr>pwm_frequency := (pwm_frequency h)(pin := f), calls := calls h @ [SetPWMfrequency pin f]\<rparr>"

definition gpioSetPWMrange :: "int \<Rightarrow> int \<Rightarrow> gpio \<Rightarrow> gpio" where
  "gpioSetPWMrange pin r h =
     h\<lparr>pwm_range := (pwm_range h)(pin := r), calls := calls h @ [SetPWMrange pin r]\<rparr>"

definition gpioPWM :: "int \<Rightarrow> int \<Rightarrow> gpio \<Rightarrow> gpio" where
  "gpioPWM pin v h = h\<lparr>pwm_duty := (pwm_duty h)(pin := v), calls := calls h @ [PWM pin v]\<rparr>"

definition gpioTerminate :: "gpio \<Rightarrow> gpio" where
  "gpioTerminate h = h\<lparr>calls := calls h @ [Terminate]\<rparr>"

text \<open>A board on which no call has been made yet, every pin an input.\<close>

definition gpio_init :: gpio where
  "gpio_init = \<lparr>pin_mode = (\<lambda>_. 0), pwm_frequency = (\<lambda>_. 0), pwm_range = (\<lambda>_. 0),
                 pwm_duty = (\<lambda>_. 0), calls = []\<rparr>"

subsection \<open>The functions of the controller\<close>

definition getPinMode :: "int \<Rightarrow> gpio \<Rightarrow> int" where
  "getPinMode pin h = gpioGetMode pin h"

definition setFanSpeed :: "int \<Rightarrow> int \<Rightarrow> gpio \<Rightarrow> gpio" where
  "setFanSpeed pin speed h = gpioPWM pin speed h"

text \<open>
  What \<open>fopen\<close> and \<open>fscanf\<close> make of the file \<open>thermalFilename\<close>: it cannot be opened, or
  \<open>%d\<close> converts nothing, or it converts the integer \<open>n\<close>.
\<close>

datatype thermal_file = Unopenable | Unparsable | Millidegrees int

text \<open>
  \<open>getCurrTemp\<close> does not test the result of \<open>fopen\<close>: a null stream reaches \<open>fscanf\<close>.
  It does not test the result of \<open>fscanf\<close> either: when nothing is converted,
  \<open>currTemp\<close> keeps its initial 0. In line 80 the quotient is a \<open>float\<close>, the sum with the
  \<open>double\<close> constant 0.5 is a \<open>double\<close>, and the assignment converts it to \<open>int\<close>.
\<close>

definition getCurrTemp :: "thermal_file \<Rightarrow> int option" where
  "getCurrTemp thermalFile =
     (case thermalFile of
        Unopenable \<Rightarrow> None
      | Unparsable \<Rightarrow>
          float_to_int (double_add (float_div (int_to_float 0) (int_to_float 1000)) (1 / 2))
      | Millidegrees n \<Rightarrow>
          float_to_int (double_add (float_div (int_to_float n) (int_to_float 1000)) (1 / 2)))"

definition setupPwm :: "globals \<Rightarrow> gpio \<Rightarrow> globals \<times> gpio" where
  "setupPwm g h =
     (let g1 = g\<lparr>origPwmPinMode := getPinMode (PWM_PIN g) h\<rparr>;
          h1 = gpioSetMode (PWM_PIN g1) PI_OUTPUT h;
          h2 = gpioSetPWMfrequency (PWM_PIN g1) (FREQUENCY g1) h1;
          h3 = gpioSetPWMrange (PWM_PIN g1) (RPM_MAX g1) h2;
          h4 = setFanSpeed (PWM_PIN g1) (RPM_OFF g1) h3
      in (g1, h4))"

text \<open>
  The value of the local \<open>rpm\<close> of \<open>setFanRpm\<close> at line 106, from the value of the local
  \<open>currTemp\<close> (lines 95 and 99 to 105). In line 101 \<open>tempDiff\<close> is converted to \<open>float\<close>
  and divided; a zero divisor gives an infinity, whose conversion to \<open>int\<close> in line 102 is
  undefined. In line 102 the cast applies to the product, and the division by 100 is the
  division of \<open>int\<close>.
\<close>

definition setFanRpm_rpm :: "globals \<Rightarrow> int \<Rightarrow> int option" where
  "setFanRpm_rpm g currTemp = do {
     tempDiff \<leftarrow> int_sub currTemp (TEMP_LOW g);
     if tempDiff > 0 then
       if tempLimitDiffPct g = 0 then None
       else do {
         let currTempDiffPct = float_div (int_to_float tempDiff) (tempLimitDiffPct g);
         n \<leftarrow> float_to_int (float_mul currTempDiffPct (int_to_float (RPM_MAX g)));
         let rpm = int_div n 100;
         Some (if rpm < RPM_MIN g then RPM_MIN g else if rpm > RPM_MAX g then RPM_MAX g else rpm)
       }
     else Some (RPM_OFF g)
   }"

definition setFanRpm :: "thermal_file \<Rightarrow> globals \<Rightarrow> gpio \<Rightarrow> (globals \<times> gpio) option" where
  "setFanRpm thermalFile g h = do {
     currTemp \<leftarrow> getCurrTemp thermalFile;
     rpm \<leftarrow> setFanRpm_rpm g currTemp;
     Some (g\<lparr>lastRpm := rpm\<rparr>, if lastRpm g \<noteq> rpm then setFanSpeed (PWM_PIN g) rpm h else h)
   }"

text \<open>
  \<open>delay\<close> builds the \<open>struct timespec\<close> it passes to \<open>nanosleep\<close>. \<open>unsigned int\<close> has 32
  bits; \<open>time_t\<close> and \<open>long\<close> are signed and have 32 bits on the 32-bit system, their
  narrowest: the two fields are words read with \<open>sint\<close>. \<open>msInSec\<close> is converted to
  \<open>unsigned int\<close> for the division and the remainder.
\<close>

record timespec =
  tv_sec :: "32 word"
  tv_nsec :: "32 word"

definition delay :: "32 word \<Rightarrow> timespec" where
  "delay waitMillisec =
     (let msInSec = 1000
      in \<lparr>tv_sec = ucast (waitMillisec div msInSec),
          tv_nsec = ucast (waitMillisec mod msInSec) * 1000000\<rparr>)"

definition cleanup :: "globals \<Rightarrow> gpio \<Rightarrow> gpio" where
  "cleanup g h =
     (let h1 = setFanSpeed (PWM_PIN g) (RPM_OFF g) h;
          h2 = gpioSetMode (PWM_PIN g) (origPwmPinMode g) h1
      in gpioTerminate h2)"

text \<open>
  \<open>start\<close> runs \<open>setFanRpm\<close> and sleeps, again and again, until it sees that the handler
  of \<^verbatim>\<open>SIGINT\<close> has cleared \<open>keepRunning\<close>. The list \<open>thermalFiles\<close> holds what the
  sensor file gives in each of the iterations that run before that; \<open>delay\<close> changes
  neither the globals nor the pins.
\<close>

fun start :: "thermal_file list \<Rightarrow> globals \<Rightarrow> gpio \<Rightarrow> (globals \<times> gpio) option" where
  "start [] g h = Some (g, h)"
| "start (thermalFile # thermalFiles) g h = do {
     (g1, h1) \<leftarrow> setFanRpm thermalFile g h;
     start thermalFiles g1 h1
   }"

text \<open>
  \<open>main\<close> returns the exit status and the pins as it leaves them. \<open>initPigpio\<close> fails
  when \<open>gpioInitialise\<close> does, which is the argument \<open>pigpioOk\<close>; then \<open>main\<close> returns 1
  without touching a pin.
\<close>

definition main :: "conf_file \<Rightarrow> bool \<Rightarrow> thermal_file list \<Rightarrow> gpio \<Rightarrow> (int \<times> gpio) option" where
  "main confFile pigpioOk thermalFiles h = do {
     g \<leftarrow> initFanControl confFile globals_init;
     if \<not> pigpioOk then Some (1, h)
     else do {
       (g1, h1) \<leftarrow> Some (setupPwm g h);
       (g2, h2) \<leftarrow> start thermalFiles g1 h1;
       Some (0, cleanup g2 h2)
     }
   }"

section \<open>Properties of the arithmetic\<close>

subsection \<open>The binade of a positive rational\<close>

lemma pow2_of_int: "0 \<le> k \<Longrightarrow> (of_int (2 ^ nat k) :: rat) = 2 powi k"
  by (simp add: power_int_def)

lemma ilog2_bounds:
  assumes "0 < x"
  shows "2 powi ilog2 x \<le> x" and "x < 2 powi (ilog2 x + 1)"
proof -
  obtain a b where ab: "quotient_of x = (a, b)" by (cases "quotient_of x")
  have b: "0 < b" using quotient_of_denom_pos[OF ab] .
  have x: "x = of_int a / of_int b" using quotient_of_div[OF ab] .
  have a: "0 < a" using assms b x by (simp add: zero_less_divide_iff)
  define e where "e = bitlen a - bitlen b"
  have ba: "1 \<le> bitlen a" using a bitlen_eq_zero_iff[of a] bitlen_nonneg[of a] by linarith
  have bb: "1 \<le> bitlen b" using b bitlen_eq_zero_iff[of b] bitlen_nonneg[of b] by linarith
  have a_lo: "(2::rat) powi (bitlen a - 1) \<le> of_int a"
  proof -
    have "2 ^ nat (bitlen a - 1) \<le> a" using bitlen_bounds[OF a] by simp
    then have "(of_int (2 ^ nat (bitlen a - 1)) :: rat) \<le> of_int a" by (simp only: of_int_le_iff)
    then show ?thesis using ba by (simp only: pow2_of_int)
  qed
  have a_hi: "of_int a < (2::rat) powi (bitlen a)"
  proof -
    have "a < 2 ^ nat (bitlen a)" using bitlen_bounds[OF a] by simp
    then have "(of_int a :: rat) < of_int (2 ^ nat (bitlen a))" by (simp only: of_int_less_iff)
    then show ?thesis using ba by (simp only: pow2_of_int)
  qed
  have b_lo: "(2::rat) powi (bitlen b - 1) \<le> of_int b"
  proof -
    have "2 ^ nat (bitlen b - 1) \<le> b" using bitlen_bounds[OF b] by simp
    then have "(of_int (2 ^ nat (bitlen b - 1)) :: rat) \<le> of_int b" by (simp only: of_int_le_iff)
    then show ?thesis using bb by (simp only: pow2_of_int)
  qed
  have b_hi: "of_int b < (2::rat) powi (bitlen b)"
  proof -
    have "b < 2 ^ nat (bitlen b)" using bitlen_bounds[OF b] by simp
    then have "(of_int b :: rat) < of_int (2 ^ nat (bitlen b))" by (simp only: of_int_less_iff)
    then show ?thesis using bb by (simp only: pow2_of_int)
  qed
  have bpos: "(0::rat) < of_int b" using b by simp
  have up: "x < 2 powi (e + 1)"
  proof -
    have "of_int a < (2::rat) powi (e + 1) * 2 powi (bitlen b - 1)"
      using a_hi by (simp add: e_def flip: power_int_add)
    also have "\<dots> \<le> 2 powi (e + 1) * of_int b"
      using b_lo by (intro mult_left_mono) simp_all
    finally show ?thesis using bpos by (simp add: x pos_divide_less_eq)
  qed
  have lo: "2 powi (e - 1) \<le> x"
  proof -
    have "(2::rat) powi (e - 1) * of_int b \<le> 2 powi (e - 1) * 2 powi (bitlen b)"
      using b_hi by (intro mult_left_mono) simp_all
    also have "\<dots> = 2 powi (bitlen a - 1)"
      by (simp add: e_def flip: power_int_add)
    also have "\<dots> \<le> of_int a" by (rule a_lo)
    finally show ?thesis using bpos by (simp add: x pos_le_divide_eq)
  qed
  have il: "ilog2 x = (if 2 powi e \<le> x then e else e - 1)"
    by (simp add: ilog2_def ab e_def Let_def)
  show "2 powi ilog2 x \<le> x" using lo by (simp add: il)
  show "x < 2 powi (ilog2 x + 1)" using up by (auto simp add: il not_le)
qed

lemma ilog2_unique:
  assumes "2 powi e \<le> x" "x < 2 powi (e + 1)"
  shows "ilog2 x = e"
proof -
  have x: "0 < x" using assms(1) by (rule less_le_trans[rotated]) simp
  note b = ilog2_bounds[OF x]
  have "(2::rat) powi e < 2 powi (ilog2 x + 1)" using assms(1) b(2) by simp
  then have 1: "e < ilog2 x + 1"
    by (metis linorder_not_le power_int_increasing one_le_numeral)
  have "(2::rat) powi ilog2 x < 2 powi (e + 1)" using assms(2) b(1) by simp
  then have 2: "ilog2 x < e + 1"
    by (metis linorder_not_le power_int_increasing one_le_numeral)
  from 1 2 show ?thesis by simp
qed

lemma ilog2_mono:
  assumes "0 < x" "x \<le> y"
  shows "ilog2 x \<le> ilog2 y"
proof (rule ccontr)
  assume "\<not> ilog2 x \<le> ilog2 y"
  then have "ilog2 y + 1 \<le> ilog2 x" by simp
  then have "(2::rat) powi (ilog2 y + 1) \<le> 2 powi ilog2 x"
    by (intro power_int_increasing) simp_all
  also have "\<dots> \<le> x" using ilog2_bounds(1)[OF assms(1)] .
  also have "\<dots> \<le> y" by fact
  finally show False using ilog2_bounds(2)[of y] assms by simp
qed

subsection \<open>Rounding to the nearest integer\<close>

lemma rne_of_int [simp]: "rne (of_int n) = n"
  by (simp add: rne_def)

lemma rne_error: "\<bar>of_int (rne y) - y\<bar> \<le> 1 / 2"
proof -
  have "of_int \<lfloor>y\<rfloor> \<le> y" "y < of_int \<lfloor>y\<rfloor> + 1" by linarith+
  then show ?thesis by (auto simp: rne_def Let_def)
qed

lemma rne_bounds: "\<lfloor>y\<rfloor> \<le> rne y" "rne y \<le> \<lfloor>y\<rfloor> + 1"
  by (auto simp: rne_def Let_def)

lemma rne_mono:
  assumes "y \<le> z"
  shows "rne y \<le> rne z"
proof (cases "\<lfloor>y\<rfloor> = \<lfloor>z\<rfloor>")
  case True
  then show ?thesis using assms by (auto simp: rne_def Let_def)
next
  case False
  then have "\<lfloor>y\<rfloor> < \<lfloor>z\<rfloor>" using floor_mono[OF assms] by simp
  then have "rne y \<le> \<lfloor>z\<rfloor>" using rne_bounds(2)[of y] by simp
  then show ?thesis using rne_bounds(1)[of z] by simp
qed

lemma rne_minus: "rne (- y) = - rne y"
proof (cases "y \<in> \<int>")
  case True
  then obtain n where "y = of_int n" by (auto elim: Ints_cases)
  then show ?thesis by (simp flip: of_int_minus)
next
  case False
  then have "y \<noteq> of_int \<lfloor>y\<rfloor>" by (metis Ints_of_int)
  then have f: "\<lfloor>- y\<rfloor> = - \<lfloor>y\<rfloor> - 1"
    by (simp add: floor_minus ceiling_altdef)
  show ?thesis unfolding rne_def Let_def f by (auto simp: algebra_simps)
qed


subsection \<open>Rounding to \<open>p\<close> bits\<close>

lemma fl_0 [simp]: "fl p 0 = 0"
  by (simp add: fl_def)

lemma fl_minus: "fl p (- x) = - fl p x"
  by (simp add: fl_def Let_def rne_minus)

lemma fl_pos:
  assumes "0 < x"
  shows "fl p x = of_int (rne (x / 2 powi (ilog2 x - int p + 1))) * 2 powi (ilog2 x - int p + 1)"
  using assms by (simp add: fl_def Let_def)

lemma pow2_split: "(2::rat) powi e = of_int (2 ^ n) * 2 powi (e - int n)"
proof -
  have "(2::rat) powi e = 2 powi (int n) * 2 powi (e - int n)"
    using power_int_add[of "2::rat" "int n" "e - int n"] by simp
  then show ?thesis by simp
qed

lemma fl_binade:
  assumes p: "0 < p" and x: "0 < x"
  shows "2 powi ilog2 x \<le> fl p x" and "fl p x \<le> 2 powi (ilog2 x + 1)"
proof -
  define e where "e = ilog2 x"
  define q :: rat where "q = 2 powi (e - int p + 1)"
  have q: "0 < q" by (simp add: q_def)
  have flx: "fl p x = of_int (rne (x / q)) * q"
    using fl_pos[OF x, of p] by (simp add: q_def e_def)
  have lo: "(2::rat) powi e = of_int (2 ^ (p - 1)) * q"
    using pow2_split[of e "p - 1"] p by (simp add: q_def of_nat_diff algebra_simps)
  have hi: "(2::rat) powi (e + 1) = of_int (2 ^ p) * q"
    using pow2_split[of "e + 1" p] by (simp add: q_def algebra_simps)
  have "of_int (2 ^ (p - 1)) * q \<le> x"
    using ilog2_bounds(1)[OF x] lo by (simp add: e_def)
  then have "of_int (2 ^ (p - 1)) \<le> x / q" using q by (simp add: pos_le_divide_eq)
  then have "rne (of_int (2 ^ (p - 1))) \<le> rne (x / q)" by (rule rne_mono)
  then have "(of_int (2 ^ (p - 1)) :: rat) \<le> of_int (rne (x / q))"
    by (simp only: rne_of_int of_int_le_iff)
  then have "of_int (2 ^ (p - 1)) * q \<le> of_int (rne (x / q)) * q"
    using q by (intro mult_right_mono) simp_all
  then show "2 powi ilog2 x \<le> fl p x" using lo flx by (simp add: e_def)
  have "x \<le> of_int (2 ^ p) * q"
    using ilog2_bounds(2)[OF x] hi by (simp add: e_def)
  then have "x / q \<le> of_int (2 ^ p)" using q by (simp add: pos_divide_le_eq)
  then have "rne (x / q) \<le> rne (of_int (2 ^ p))" by (rule rne_mono)
  then have "(of_int (rne (x / q)) :: rat) \<le> of_int (2 ^ p)"
    by (simp only: rne_of_int of_int_le_iff)
  then have "of_int (rne (x / q)) * q \<le> of_int (2 ^ p) * q"
    using q by (intro mult_right_mono) simp_all
  then show "fl p x \<le> 2 powi (ilog2 x + 1)" using hi flx by (simp add: e_def)
qed

lemma fl_nonneg:
  assumes "0 < p" "0 \<le> x"
  shows "0 \<le> fl p x"
proof (cases "x = 0")
  case False
  then have "0 < x" using assms by simp
  from fl_binade(1)[OF assms(1) this] show ?thesis
    by (rule order_trans[rotated]) simp
qed simp

lemma fl_pos_pos:
  assumes "0 < p" "0 < x"
  shows "0 < fl p x"
  using fl_binade(1)[OF assms] by (rule less_le_trans[rotated]) simp

lemma fl_mono_pos:
  assumes p: "0 < p" and x: "0 < x" and xy: "x \<le> y"
  shows "fl p x \<le> fl p y"
proof -
  have y: "0 < y" using x xy by simp
  have le: "ilog2 x \<le> ilog2 y" using ilog2_mono[OF x xy] .
  show ?thesis
  proof (cases "ilog2 x = ilog2 y")
    case True
    define q :: rat where "q = 2 powi (ilog2 y - int p + 1)"
    have q: "0 < q" by (simp add: q_def)
    have "x / q \<le> y / q" using xy q by (simp add: divide_right_mono)
    then have "rne (x / q) \<le> rne (y / q)" by (rule rne_mono)
    then have "(of_int (rne (x / q)) :: rat) * q \<le> of_int (rne (y / q)) * q"
      using q by (intro mult_right_mono) simp_all
    then show ?thesis using fl_pos[OF x, of p] fl_pos[OF y, of p] True by (simp add: q_def)
  next
    case False
    then have "ilog2 x + 1 \<le> ilog2 y" using le by simp
    then have "(2::rat) powi (ilog2 x + 1) \<le> 2 powi ilog2 y"
      by (intro power_int_increasing) simp_all
    then show ?thesis using fl_binade(2)[OF p x] fl_binade(1)[OF p y] by linarith
  qed
qed

lemma fl_mono:
  assumes p: "0 < p" and xy: "x \<le> y"
  shows "fl p x \<le> fl p y"
proof -
  consider "0 < x" | "x \<le> 0" "0 \<le> y" | "y < 0" by linarith
  then show ?thesis
  proof cases
    case 1
    then show ?thesis using fl_mono_pos[OF p _ xy] by simp
  next
    case 2
    have "0 \<le> fl p (- x)" using fl_nonneg[OF p, of "- x"] 2 by simp
    then have "fl p x \<le> 0" by (simp add: fl_minus)
    then show ?thesis using fl_nonneg[OF p 2(2)] by simp
  next
    case 3
    have "fl p (- y) \<le> fl p (- x)" using fl_mono_pos[OF p, of "- y" "- x"] 3 xy by simp
    then show ?thesis by (simp add: fl_minus)
  qed
qed

lemma fl_exact_pos:
  assumes p: "0 < p" and m: "0 < m" "m < 2 ^ p"
  shows "fl p (of_int m * 2 powi j) = of_int m * 2 powi j"
proof -
  define x :: rat where "x = of_int m * 2 powi j"
  have x: "0 < x" using m by (simp add: x_def)
  define e where "e = ilog2 x"
  have "(of_int m :: rat) < of_int (2 ^ p)" using m(2) by (simp only: of_int_less_iff)
  then have "x < of_int (2 ^ p) * 2 powi j"
    unfolding x_def by (intro mult_strict_right_mono) simp_all
  also have "\<dots> = 2 powi (int p + j)" by (simp add: power_int_add)
  finally have "(2::rat) powi e < 2 powi (int p + j)"
    using ilog2_bounds(1)[OF x] by (simp add: e_def)
  then have "e < int p + j"
    by (metis linorder_not_le power_int_increasing one_le_numeral)
  then have d: "0 \<le> j - (e - int p + 1)" by simp
  define d where "d = nat (j - (e - int p + 1))"
  have j: "j = int d + (e - int p + 1)" using d by (simp add: d_def)
  have "(2::rat) powi j = of_int (2 ^ d) * 2 powi (e - int p + 1)"
    by (subst j) (simp add: power_int_add)
  then have xq: "x / 2 powi (e - int p + 1) = of_int (m * 2 ^ d)"
    by (simp add: x_def)
  have "fl p x = of_int (rne (of_int (m * 2 ^ d))) * 2 powi (e - int p + 1)"
    using fl_pos[OF x, of p] by (simp only: e_def[symmetric] xq)
  also have "\<dots> = x" using xq by (simp only: rne_of_int) (simp add: field_simps)
  finally show ?thesis by (simp add: x_def)
qed

lemma fl_exact:
  assumes p: "0 < p" and m: "\<bar>m\<bar> < 2 ^ p"
  shows "fl p (of_int m * 2 powi j) = of_int m * 2 powi j"
proof -
  consider "0 < m" | "m = 0" | "m < 0" by linarith
  then show ?thesis
  proof cases
    case 1
    then show ?thesis using fl_exact_pos[OF p] m by simp
  next
    case 2
    then show ?thesis by simp
  next
    case 3
    then have "fl p (of_int (- m) * 2 powi j) = of_int (- m) * 2 powi j"
      using m by (intro fl_exact_pos[OF p]) simp_all
    then show ?thesis by (simp add: fl_minus)
  qed
qed

lemma fl_of_int:
  assumes "0 < p" "\<bar>m\<bar> < 2 ^ p"
  shows "fl p (of_int m) = of_int m"
  using fl_exact[OF assms, of 0] by simp

lemma fl_error_pos:
  assumes x: "0 < x"
  shows "\<bar>fl p x - x\<bar> \<le> 2 powi (ilog2 x - int p)"
proof -
  define q :: rat where "q = 2 powi (ilog2 x - int p + 1)"
  have q: "0 < q" by (simp add: q_def)
  have flx: "fl p x = of_int (rne (x / q)) * q"
    using fl_pos[OF x, of p] by (simp add: q_def)
  have "fl p x - x = (of_int (rne (x / q)) - x / q) * q"
    using q by (simp add: flx algebra_simps)
  then have "\<bar>fl p x - x\<bar> = \<bar>of_int (rne (x / q)) - x / q\<bar> * q"
    using q by (simp add: abs_mult)
  also have "\<dots> \<le> 1 / 2 * q"
    using q rne_error[of "x / q"] by (intro mult_right_mono) simp_all
  also have "\<dots> = 2 powi (ilog2 x - int p)"
    by (simp add: q_def power_int_add)
  finally show ?thesis .
qed

subsection \<open>The operations of \<open>float\<close>\<close>

lemma int_to_float_exact:
  assumes "\<bar>n\<bar> < 16777216"
  shows "int_to_float n = of_int n"
  using fl_of_int[of 24 n] assms by (simp add: int_to_float_def)

lemma ilog2_less:
  assumes "0 < x" "x < 2 powi e"
  shows "ilog2 x < e"
proof -
  have "(2::rat) powi ilog2 x < 2 powi e" using ilog2_bounds(1)[OF assms(1)] assms(2) by simp
  then show ?thesis by (metis linorder_not_le power_int_increasing one_le_numeral)
qed

lemma float_to_int_floor:
  assumes "of_int k \<le> x" "x < of_int k + 1" "0 \<le> k" "k \<le> INT_MAX"
  shows "float_to_int x = Some k"
proof -
  have "\<lfloor>x\<rfloor> = k" using assms(1,2) by linarith
  moreover have "0 \<le> x" using assms(1,3) by (meson of_int_0_le_iff order_trans)
  ultimately show ?thesis using assms(3,4)
    by (simp add: float_to_int_def int_range_def INT_MIN_def)
qed

lemma int_to_float_mono: "a \<le> b \<Longrightarrow> int_to_float a \<le> int_to_float b"
  unfolding int_to_float_def by (intro fl_mono) simp_all

lemma int_to_float_nonneg: "0 \<le> a \<Longrightarrow> 0 \<le> int_to_float a"
  unfolding int_to_float_def by (intro fl_nonneg) simp_all

lemma int_to_float_pos: "0 < a \<Longrightarrow> 0 < int_to_float a"
  unfolding int_to_float_def by (intro fl_pos_pos) simp_all

lemma float_div_mono: "0 < l \<Longrightarrow> a \<le> b \<Longrightarrow> float_div a l \<le> float_div b l"
  unfolding float_div_def by (intro fl_mono divide_right_mono) simp_all

lemma float_div_pos: "0 < l \<Longrightarrow> 0 < a \<Longrightarrow> 0 < float_div a l"
  unfolding float_div_def by (intro fl_pos_pos) simp_all

lemma float_mul_mono: "0 \<le> r \<Longrightarrow> a \<le> b \<Longrightarrow> float_mul a r \<le> float_mul b r"
  unfolding float_mul_def by (intro fl_mono mult_right_mono) simp_all

lemma float_mul_nonneg: "0 \<le> r \<Longrightarrow> 0 \<le> a \<Longrightarrow> 0 \<le> float_mul a r"
  unfolding float_mul_def by (intro fl_nonneg) simp_all

lemma float_to_int_mono:
  assumes "0 \<le> x" "x \<le> y" "float_to_int y = Some n"
  shows "\<exists>m. float_to_int x = Some m \<and> 0 \<le> m \<and> m \<le> n"
proof -
  have y: "0 \<le> y" using assms(1,2) by simp
  have n: "n = \<lfloor>y\<rfloor>" "n \<le> INT_MAX"
    using assms(3) y by (auto simp: float_to_int_def Let_def int_range_def split: if_splits)
  have "\<lfloor>x\<rfloor> \<le> \<lfloor>y\<rfloor>" using assms(2) by (rule floor_mono)
  moreover have "0 \<le> \<lfloor>x\<rfloor>" using assms(1) by simp
  ultimately show ?thesis using assms(1) n
    by (simp add: float_to_int_def int_range_def INT_MIN_def)
qed

lemma float_to_int_bounded:
  assumes "of_int lo \<le> x" "x \<le> of_int hi" "INT_MIN \<le> lo" "hi \<le> INT_MAX"
  shows "\<exists>t. float_to_int x = Some t \<and> lo \<le> t \<and> t \<le> hi"
proof -
  have f: "lo \<le> \<lfloor>x\<rfloor>" "\<lfloor>x\<rfloor> \<le> hi"
    using assms(1,2) by (simp_all add: le_floor_iff floor_le_iff)
  have c: "lo \<le> \<lceil>x\<rceil>" "\<lceil>x\<rceil> \<le> hi"
    using assms(1,2) by (simp_all add: ceiling_le_iff le_ceiling_iff)
  show ?thesis using f c assms(3,4) by (simp add: float_to_int_def int_range_def)
qed

lemma int_div_nonneg: "0 \<le> a \<Longrightarrow> int_div a 100 = a div 100"
  by (simp add: int_div_def)

subsection \<open>Words read as signed\<close>

lemma sint_small:
  fixes x :: "32 word"
  assumes "uint x < 2147483648"
  shows "sint x = uint x"
proof -
  have a: "- (2 ^ 31) \<le> uint x" by (rule order_trans[of _ 0]) simp_all
  have b: "uint x < 2 ^ 31" using assms by simp
  show ?thesis using signed_take_bit_int_eq_self[OF a b] by (simp add: sint_uint)
qed

section \<open>Properties of the functions\<close>

subsection \<open>Loading the configuration\<close>

lemma list7_cases:
  obtains "ds = []"
  | a where "ds = [a]"
  | a b where "ds = [a, b]"
  | a b c where "ds = [a, b, c]"
  | a b c d where "ds = [a, b, c, d]"
  | a b c d e where "ds = [a, b, c, d, e]"
  | a b c d e f where "ds = [a, b, c, d, e, f]"
  | a b c d e f g r where "ds = a # b # c # d # e # f # g # r"
proof (cases ds)
  case Nil then show ?thesis using that(1) by simp
next
  case (Cons a l1)
  show ?thesis
  proof (cases l1)
    case Nil then show ?thesis using that(2) Cons by simp
  next
    case (Cons b l2)
    note c2 = Cons
    show ?thesis
    proof (cases l2)
      case Nil then show ?thesis using that(3) \<open>ds = a # l1\<close> c2 by simp
    next
      case (Cons c l3)
      note c3 = Cons
      show ?thesis
      proof (cases l3)
        case Nil then show ?thesis using that(4) \<open>ds = a # l1\<close> c2 c3 by simp
      next
        case (Cons d l4)
        note c4 = Cons
        show ?thesis
        proof (cases l4)
          case Nil then show ?thesis using that(5) \<open>ds = a # l1\<close> c2 c3 c4 by simp
        next
          case (Cons e l5)
          note c5 = Cons
          show ?thesis
          proof (cases l5)
            case Nil then show ?thesis using that(6) \<open>ds = a # l1\<close> c2 c3 c4 c5 by simp
          next
            case (Cons f l6)
            note c6 = Cons
            show ?thesis
            proof (cases l6)
              case Nil then show ?thesis using that(7) \<open>ds = a # l1\<close> c2 c3 c4 c5 c6 by simp
            next
              case (Cons g r)
              then show ?thesis using that(8) \<open>ds = a # l1\<close> c2 c3 c4 c5 c6 by simp
            qed
          qed
        qed
      qed
    qed
  qed
qed


lemma fold_conf_targets:
  "fold (\<lambda>(store, d). store d) (zip conf_targets ds) g =
     g\<lparr>PWM_PIN := (if 0 < length ds then ds ! 0 else PWM_PIN g),
       RPM_MAX := (if 1 < length ds then ds ! 1 else RPM_MAX g),
       RPM_MIN := (if 2 < length ds then ds ! 2 else RPM_MIN g),
       RPM_OFF := (if 3 < length ds then ds ! 3 else RPM_OFF g),
       TEMP_MAX := (if 4 < length ds then ds ! 4 else TEMP_MAX g),
       TEMP_LOW := (if 5 < length ds then ds ! 5 else TEMP_LOW g),
       WAIT := (if 6 < length ds then ds ! 6 else WAIT g)\<rparr>"
  by (cases ds rule: list7_cases) (simp_all add: conf_targets_def)

lemma length_conf_targets: "length conf_targets = 7"
  by (simp add: conf_targets_def)

lemma fscanf_conf_eq:
  "fscanf_conf ds s g =
     (if 7 \<le> length ds \<and> (case s of Some w \<Rightarrow> 38 \<le> length w | None \<Rightarrow> False) then None
      else Some (g\<lparr>PWM_PIN := (if 0 < length ds then ds ! 0 else PWM_PIN g),
                   RPM_MAX := (if 1 < length ds then ds ! 1 else RPM_MAX g),
                   RPM_MIN := (if 2 < length ds then ds ! 2 else RPM_MIN g),
                   RPM_OFF := (if 3 < length ds then ds ! 3 else RPM_OFF g),
                   TEMP_MAX := (if 4 < length ds then ds ! 4 else TEMP_MAX g),
                   TEMP_LOW := (if 5 < length ds then ds ! 5 else TEMP_LOW g),
                   WAIT := (if 6 < length ds then ds ! 6 else WAIT g),
                   thermalFilename := (case s of Some w \<Rightarrow> if 7 \<le> length ds then w else thermalFilename g
                                        | None \<Rightarrow> thermalFilename g)\<rparr>))"
  unfolding fscanf_conf_def fold_conf_targets length_conf_targets Let_def
  by (cases s) (auto simp: not_less)

lemma initFanControl_kept:
  assumes "initFanControl confFile g = Some g1"
  shows "FREQUENCY g1 = FREQUENCY g" "lastRpm g1 = lastRpm g" "origPwmPinMode g1 = origPwmPinMode g"
  using assms
  by (auto simp: initFanControl_def fscanf_conf_eq bind_eq_Some_conv split: conf_file.splits if_splits)

lemma initFanControl_tempLimitDiffPct:
  assumes "initFanControl confFile g = Some g1"
  shows "int_range (TEMP_MAX g1 - TEMP_LOW g1)"
    and "tempLimitDiffPct g1 = float_div (int_to_float (TEMP_MAX g1 - TEMP_LOW g1)) (int_to_float 100)"
  using assms
  by (auto simp: initFanControl_def int_sub_def bind_eq_Some_conv split: if_splits)

lemma initFanControl_undefined_iff:
  "initFanControl (Scanned ds s) globals_init = None \<longleftrightarrow>
     (7 \<le> length ds \<and> (case s of Some w \<Rightarrow> 38 \<le> length w | None \<Rightarrow> False))
     \<or> \<not> int_range ((if 4 < length ds then ds ! 4 else 55) - (if 5 < length ds then ds ! 5 else 40))"
  unfolding initFanControl_def fscanf_conf_eq
  by (auto simp: int_sub_def globals_init_def split: if_splits option.splits)

subsection \<open>Reading the sensor\<close>

text \<open>Every reading that is an \<open>int\<close> gives a temperature, without undefined behaviour.\<close>

lemma getCurrTemp_defined:
  assumes "int_range n"
  shows "\<exists>t. getCurrTemp (Millidegrees n) = Some t \<and> - 2147484 \<le> t \<and> t \<le> 2147485"
proof -
  define s where "s m = double_add (float_div (int_to_float m) (int_to_float 1000)) (1 / 2)" for m
  have k: "0 < int_to_float 1000" by (intro int_to_float_pos) simp
  have mono: "s a \<le> s b" if "a \<le> b" for a b
    unfolding s_def double_add_def
    using that by (intro fl_mono add_right_mono float_div_mono[OF k] int_to_float_mono) simp_all
  have lo: "s (- 2147483648) = - 8589933 / 4" unfolding s_def by code_simp
  have hi: "s 2147483647 = 8589937 / 4" unfolding s_def by code_simp
  have "s (- 2147483648) \<le> s n" "s n \<le> s 2147483647"
    using assms by (auto intro!: mono simp: int_range_def INT_MIN_def INT_MAX_def)
  then have "of_int (- 2147484) \<le> s n" "s n \<le> of_int 2147485"
    unfolding lo hi by simp_all
  then have "\<exists>t. float_to_int (s n) = Some t \<and> - 2147484 \<le> t \<and> t \<le> 2147485"
    by (rule float_to_int_bounded) (simp_all add: INT_MIN_def INT_MAX_def)
  then show ?thesis by (simp add: getCurrTemp_def s_def)
qed

subsection \<open>Setting up the pin\<close>

lemma setupPwm_globals:
  "fst (setupPwm g h) = g\<lparr>origPwmPinMode := pin_mode h (PWM_PIN g)\<rparr>"
  by (simp add: setupPwm_def Let_def getPinMode_def gpioGetMode_def)

subsection \<open>The duty as a function of the temperature\<close>

lemma tempLimitDiffPct_pos:
  assumes "initFanControl confFile g0 = Some g" "TEMP_LOW g < TEMP_MAX g"
  shows "0 < tempLimitDiffPct g"
proof -
  have "0 < int_to_float (TEMP_MAX g - TEMP_LOW g)" using assms(2) by (intro int_to_float_pos) simp
  moreover have "0 < int_to_float 100" by (intro int_to_float_pos) simp
  ultimately show ?thesis
    unfolding initFanControl_tempLimitDiffPct(2)[OF assms(1)] by (intro float_div_pos)
qed

lemma setFanRpm_rpm_low:
  assumes "currTemp \<le> TEMP_LOW g" and "INT_MIN \<le> currTemp - TEMP_LOW g"
  shows "setFanRpm_rpm g currTemp = Some (RPM_OFF g)"
proof -
  have "int_range (currTemp - TEMP_LOW g)"
    using assms by (simp add: int_range_def INT_MAX_def INT_MIN_def)
  then show ?thesis using assms(1) by (simp add: setFanRpm_rpm_def int_sub_def)
qed


lemma setFanRpm_rpm_mono:
  assumes l: "0 < tempLimitDiffPct g" and r: "0 \<le> RPM_MAX g" and mm: "RPM_MIN g \<le> RPM_MAX g"
    and t1: "TEMP_LOW g < t1" and t12: "t1 \<le> t2"
    and d2: "setFanRpm_rpm g t2 = Some r2"
  shows "\<exists>r1. setFanRpm_rpm g t1 = Some r1 \<and> r1 \<le> r2 \<and> RPM_MIN g \<le> r1 \<and> r2 \<le> RPM_MAX g"
proof -
  define L where "L = tempLimitDiffPct g"
  define R where "R = int_to_float (RPM_MAX g)"
  define m where "m t = float_mul (float_div (int_to_float (t - TEMP_LOW g)) L) R" for t
  have L: "0 < L" "L \<noteq> 0" using l by (simp_all add: L_def)
  have R: "0 \<le> R" unfolding R_def using r by (rule int_to_float_nonneg)
  have t2: "TEMP_LOW g < t2" using t1 t12 by simp
  have rng2: "int_range (t2 - TEMP_LOW g)"
    using d2 by (auto simp: setFanRpm_rpm_def int_sub_def bind_eq_Some_conv split: if_splits)
  then have rng1: "int_range (t1 - TEMP_LOW g)"
    using t1 t12 by (simp add: int_range_def INT_MIN_def)
  have eq: "setFanRpm_rpm g t =
      (case float_to_int (m t) of None \<Rightarrow> None
       | Some n \<Rightarrow> Some (if int_div n 100 < RPM_MIN g then RPM_MIN g
                        else if int_div n 100 > RPM_MAX g then RPM_MAX g else int_div n 100))"
    if "TEMP_LOW g < t" "int_range (t - TEMP_LOW g)" for t
    using that L by (simp add: setFanRpm_rpm_def int_sub_def m_def L_def R_def Let_def split: option.splits)
  obtain n2 where n2: "float_to_int (m t2) = Some n2"
    and r2: "r2 = (if int_div n2 100 < RPM_MIN g then RPM_MIN g
                   else if int_div n2 100 > RPM_MAX g then RPM_MAX g else int_div n2 100)"
    using d2 unfolding eq[OF t2 rng2] by (auto split: option.splits)
  have "int_to_float (t1 - TEMP_LOW g) \<le> int_to_float (t2 - TEMP_LOW g)"
    using t12 by (intro int_to_float_mono) simp
  then have "float_div (int_to_float (t1 - TEMP_LOW g)) L \<le> float_div (int_to_float (t2 - TEMP_LOW g)) L"
    by (rule float_div_mono[OF L(1)])
  then have m12: "m t1 \<le> m t2" unfolding m_def by (rule float_mul_mono[OF R])
  have "0 < int_to_float (t1 - TEMP_LOW g)" using t1 by (intro int_to_float_pos) simp
  then have "0 < float_div (int_to_float (t1 - TEMP_LOW g)) L" by (rule float_div_pos[OF L(1)])
  then have m1: "0 \<le> m t1" unfolding m_def by (intro float_mul_nonneg[OF R]) simp
  obtain n1 where n1: "float_to_int (m t1) = Some n1" "0 \<le> n1" "n1 \<le> n2"
    using float_to_int_mono[OF m1 m12 n2] by blast
  have "n1 div 100 \<le> n2 div 100" using n1(3) by (rule zdiv_mono1) simp
  then have d: "int_div n1 100 \<le> int_div n2 100"
    using n1(2,3) by (simp add: int_div_nonneg)
  show ?thesis
    unfolding eq[OF t1 rng1] n1(1) r2 using d mm by auto
qed

text \<open>
  In the default configuration the duty is computed, without undefined behaviour, for
  every temperature up to 64464 degrees; at 64465 degrees the product of line 102 is
  beyond \<open>INT_MAX\<close>.
\<close>

lemma setFanRpm_rpm_default_defined:
  assumes "initFanControl Missing globals_init = Some g" and "- 2147483608 \<le> t" and "t \<le> 64464"
  shows "\<exists>rpm. setFanRpm_rpm g t = Some rpm"
proof -
  have g: "g = globals_init\<lparr>tempLimitDiffPct := 5033165 / 33554432\<rparr>"
  proof -
    have "initFanControl Missing globals_init = Some (globals_init\<lparr>tempLimitDiffPct := 5033165 / 33554432\<rparr>)"
      by code_simp
    then show ?thesis using assms(1) by simp
  qed
  show ?thesis
  proof (cases "t \<le> TEMP_LOW g")
    case True
    then show ?thesis using setFanRpm_rpm_low[of t g] assms(2)
      by (simp add: g globals_init_def INT_MIN_def)
  next
    case False
    have top: "setFanRpm_rpm (globals_init\<lparr>tempLimitDiffPct := 5033165 / 33554432\<rparr>) 64464 = Some 5000"
      by code_simp
    have "\<exists>r1. setFanRpm_rpm g t = Some r1 \<and> r1 \<le> 5000 \<and> RPM_MIN g \<le> r1 \<and> 5000 \<le> RPM_MAX g"
      using False assms(3) top
      by (intro setFanRpm_rpm_mono) (simp_all add: g globals_init_def)
    then show ?thesis by blast
  qed
qed

text \<open>
  In the default configuration the duty is \<open>RPM_MAX\<close> from 56 degrees on, as far as it is
  computed.
\<close>

lemma setFanRpm_rpm_default_above_TEMP_MAX:
  assumes "initFanControl Missing globals_init = Some g" and "56 \<le> t" and "t \<le> 64464"
  shows "setFanRpm_rpm g t = Some 5000"
proof -
  have g: "g = globals_init\<lparr>tempLimitDiffPct := 5033165 / 33554432\<rparr>"
  proof -
    have "initFanControl Missing globals_init = Some (globals_init\<lparr>tempLimitDiffPct := 5033165 / 33554432\<rparr>)"
      by code_simp
    then show ?thesis using assms(1) by simp
  qed
  obtain r where r: "setFanRpm_rpm g t = Some r"
    using setFanRpm_rpm_default_defined[OF assms(1) _ assms(3)] assms(2) by auto
  have low: "setFanRpm_rpm (globals_init\<lparr>tempLimitDiffPct := 5033165 / 33554432\<rparr>) 56 = Some 5000"
    by code_simp
  have "\<exists>r1. setFanRpm_rpm g 56 = Some r1 \<and> r1 \<le> r \<and> RPM_MIN g \<le> r1 \<and> r \<le> RPM_MAX g"
    using assms(2) r by (intro setFanRpm_rpm_mono) (simp_all add: g globals_init_def)
  then have "5000 \<le> r" "r \<le> 5000" using low by (simp_all add: g globals_init_def)
  then show ?thesis using r by simp
qed

subsection \<open>The loop and the whole program\<close>

text \<open>
  The iterations of the loop change \<open>lastRpm\<close> and the duty, nothing else; so a run of
  \<open>main\<close> that reaches its end leaves the PWM pin in the mode in which it found it.
\<close>

lemma setFanRpm_kept:
  assumes "setFanRpm thermalFile g h = Some (g1, h1)"
  shows "\<exists>rpm. g1 = g\<lparr>lastRpm := rpm\<rparr>" and "pin_mode h1 = pin_mode h"
  using assms
  by (auto simp: setFanRpm_def setFanSpeed_def gpioPWM_def bind_eq_Some_conv split: if_splits)

lemma start_kept:
  assumes "start thermalFiles g h = Some (g1, h1)"
  shows "(g1 = g \<or> (\<exists>rpm. g1 = g\<lparr>lastRpm := rpm\<rparr>)) \<and> pin_mode h1 = pin_mode h"
  using assms
proof (induction thermalFiles arbitrary: g h)
  case Nil
  then show ?case by simp
next
  case (Cons f fs)
  then obtain g' h' where s: "setFanRpm f g h = Some (g', h')" and r: "start fs g' h' = Some (g1, h1)"
    by (auto simp: bind_eq_Some_conv)
  obtain a where a: "g' = g\<lparr>lastRpm := a\<rparr>" and ha: "pin_mode h' = pin_mode h"
    using setFanRpm_kept[OF s] by blast
  have "g1 = g' \<or> (\<exists>rpm. g1 = g'\<lparr>lastRpm := rpm\<rparr>)" and hb: "pin_mode h1 = pin_mode h'"
    using Cons.IH[OF r] by simp_all
  then have "\<exists>rpm. g1 = g\<lparr>lastRpm := rpm\<rparr>" unfolding a by auto
  then show ?case using ha hb by simp
qed

lemma main_restores_mode:
  assumes "main confFile True thermalFiles h = Some (status, h1)"
  shows "\<exists>g. initFanControl confFile globals_init = Some g \<and> status = 0
             \<and> pin_mode h1 (PWM_PIN g) = pin_mode h (PWM_PIN g)"
proof -
  obtain g p where i: "initFanControl confFile globals_init = Some g"
    and sp: "start thermalFiles (fst (setupPwm g h)) (snd (setupPwm g h)) = Some p"
    and ep: "status = 0" "h1 = cleanup (fst p) (snd p)"
    using assms by (auto simp: main_def bind_eq_Some_conv case_prod_beta)
  obtain g2 h2 where p: "p = (g2, h2)" by (cases p)
  note s = sp[unfolded p]
  have e: "status = 0" "h1 = cleanup g2 h2" using ep by (simp_all add: p)
  have "g2 = fst (setupPwm g h) \<or> (\<exists>rpm. g2 = (fst (setupPwm g h))\<lparr>lastRpm := rpm\<rparr>)"
    using start_kept[OF s] by simp
  then have "PWM_PIN g2 = PWM_PIN g \<and> origPwmPinMode g2 = pin_mode h (PWM_PIN g)"
    by (auto simp: setupPwm_globals)
  then have "pin_mode (cleanup g2 h2) (PWM_PIN g) = pin_mode h (PWM_PIN g)"
    by (simp add: cleanup_def Let_def setFanSpeed_def gpioPWM_def gpioSetMode_def gpioTerminate_def)
  then show ?thesis using i e by simp
qed

lemma main_pigpio_fails:
  "initFanControl confFile globals_init = Some g \<Longrightarrow> main confFile False thermalFiles h = Some (1, h)"
  by (simp add: main_def)

section \<open>The claims\<close>




text \<open>
  C2 (as amended). For every \<open>currTemp \<le> TEMP_LOW\<close> whose difference \<open>currTemp - TEMP_LOW\<close>
  is an \<open>int\<close> (it is not below \<open>INT_MIN\<close>), \<open>setFanRpm\<close> computes exactly \<open>RPM_OFF\<close>, at
  the boundary \<open>currTemp = TEMP_LOW\<close> too. No bound on the configuration is needed.
\<close>

theorem setFanRpm_rpm_off:
  assumes "currTemp \<le> TEMP_LOW g" and "INT_MIN \<le> currTemp - TEMP_LOW g"
  shows "setFanRpm_rpm g currTemp = Some (RPM_OFF g)"
  using assms by (rule setFanRpm_rpm_low)

theorem setFanRpm_rpm_off_witness:
  "initFanControl Missing globals_init = Some (globals_init\<lparr>tempLimitDiffPct := 5033165 / 33554432\<rparr>)
   \<and> TEMP_LOW (globals_init\<lparr>tempLimitDiffPct := 5033165 / 33554432\<rparr>) = 40
   \<and> setFanRpm_rpm (globals_init\<lparr>tempLimitDiffPct := 5033165 / 33554432\<rparr>) 40 = Some 0"
proof -
  let ?g = "globals_init\<lparr>tempLimitDiffPct := 5033165 / 33554432\<rparr>"
  have i: "initFanControl Missing globals_init = Some ?g" by code_simp
  have a: "40 \<le> TEMP_LOW ?g" by (simp add: globals_init_def)
  have b: "INT_MIN \<le> 40 - TEMP_LOW ?g" by (simp add: globals_init_def INT_MIN_def)
  have c: "RPM_OFF ?g = 0" "TEMP_LOW ?g = 40" by (simp_all add: globals_init_def)
  show ?thesis using setFanRpm_rpm_off[OF a b] i c by simp
qed

text \<open>
  C2 as stated fails where line 99 overflows. The configuration file sets
  \<open>TEMP_MAX = 2147483647\<close> and \<open>TEMP_LOW = 2147483646\<close>, a valid configuration, and the
  sensor reads \<open>- 4000\<close> millidegrees, which is \<open>currTemp = - 3\<close>: the difference
  \<open>- 2147483649\<close> is not an \<open>int\<close>, the behaviour is undefined and no duty is computed (on
  hardware that wraps around, the difference becomes 2147483647 and the fan is not
  switched off).
\<close>

theorem setFanRpm_rpm_off_overflow:
  "initFanControl (Scanned [18, 5000, 1500, 0, 2147483647, 2147483646] None) globals_init
     = Some (globals_init\<lparr>TEMP_MAX := 2147483647, TEMP_LOW := 2147483646,
                            tempLimitDiffPct := 5368709 / 536870912\<rparr>)
   \<and> getCurrTemp (Millidegrees (- 4000)) = Some (- 3)
   \<and> setFanRpm_rpm (globals_init\<lparr>TEMP_MAX := 2147483647, TEMP_LOW := 2147483646,
                                    tempLimitDiffPct := 5368709 / 536870912\<rparr>) (- 3) = None"
  by code_simp

text \<open>
  C3 fails in the default configuration at \<open>currTemp = TEMP_MAX = 55\<close>, a reading of
  55000 millidegrees: \<open>setFanRpm\<close> computes 4999, not \<open>RPM_MAX = 5000\<close>. \<open>tempLimitDiffPct\<close> is the \<open>float\<close> nearest to
  0.15, which is above 0.15; \<open>15 / tempLimitDiffPct\<close> rounds to the \<open>float\<close> below 100
  (99.99999237...), its product with 5000 rounds to 499999.96875, the cast drops the
  fraction, and \<open>499999 / 100\<close> is 4999.
\<close>

theorem setFanRpm_rpm_default_TEMP_MAX:
  "initFanControl Missing globals_init = Some (globals_init\<lparr>tempLimitDiffPct := 5033165 / 33554432\<rparr>)
   \<and> TEMP_MAX (globals_init\<lparr>tempLimitDiffPct := 5033165 / 33554432\<rparr>) = 55
   \<and> RPM_MAX (globals_init\<lparr>tempLimitDiffPct := 5033165 / 33554432\<rparr>) = 5000
   \<and> getCurrTemp (Millidegrees 55000) = Some 55
   \<and> setFanRpm_rpm (globals_init\<lparr>tempLimitDiffPct := 5033165 / 33554432\<rparr>) 55 = Some 4999"
  by code_simp

text \<open>The steps of lines 101 and 102 at that input.\<close>

lemma default_TEMP_MAX_trace:
  "float_div (int_to_float (55 - 40)) (int_to_float 100) = 5033165 / 33554432"
  "float_div (int_to_float 15) (5033165 / 33554432) = 13107199 / 131072"
  "float_mul (13107199 / 131072) (int_to_float 5000) = 15999999 / 32"
  "float_to_int (15999999 / 32) = Some 499999"
  "int_div 499999 100 = 4999"
  by code_simp+

text \<open>
  C4 (as amended). In a configuration with \<open>RPM_MIN \<le> RPM_MAX\<close> and \<open>0 \<le> RPM_MAX\<close>, for
  temperatures \<open>TEMP_LOW < t1 \<le> t2 < TEMP_MAX\<close> such that the duty at \<open>t2\<close> is computed
  without overflow: the duty at \<open>t1\<close> is computed too, it is at most the duty at \<open>t2\<close>, and
  both lie between \<open>RPM_MIN\<close> and \<open>RPM_MAX\<close>.
\<close>

theorem setFanRpm_rpm_monotone:
  assumes "initFanControl confFile g0 = Some g"
    and "RPM_MIN g \<le> RPM_MAX g" and "0 \<le> RPM_MAX g"
    and "TEMP_LOW g < t1" and "t1 \<le> t2" and "t2 < TEMP_MAX g"
    and "setFanRpm_rpm g t2 = Some r2"
  shows "\<exists>r1. setFanRpm_rpm g t1 = Some r1 \<and> r1 \<le> r2
              \<and> RPM_MIN g \<le> r1 \<and> r1 \<le> RPM_MAX g \<and> RPM_MIN g \<le> r2 \<and> r2 \<le> RPM_MAX g"
proof -
  have "TEMP_LOW g < TEMP_MAX g" using assms(4,5,6) by simp
  then have l: "0 < tempLimitDiffPct g" by (rule tempLimitDiffPct_pos[OF assms(1)])
  from setFanRpm_rpm_mono[OF l assms(3) assms(2) assms(4) assms(5) assms(7)]
  show ?thesis by force
qed

theorem setFanRpm_rpm_monotone_witness:
  "initFanControl Missing globals_init = Some (globals_init\<lparr>tempLimitDiffPct := 5033165 / 33554432\<rparr>)
   \<and> setFanRpm_rpm (globals_init\<lparr>tempLimitDiffPct := 5033165 / 33554432\<rparr>) 45 = Some 1666
   \<and> setFanRpm_rpm (globals_init\<lparr>tempLimitDiffPct := 5033165 / 33554432\<rparr>) 50 = Some 3333"
proof -
  let ?g = "globals_init\<lparr>tempLimitDiffPct := 5033165 / 33554432\<rparr>"
  have a: "initFanControl Missing globals_init = Some ?g" by code_simp
  have b: "RPM_MIN ?g \<le> RPM_MAX ?g" "0 \<le> RPM_MAX ?g" "TEMP_LOW ?g < 45" "(45::int) \<le> 50"
    "50 < TEMP_MAX ?g"
    by (simp_all add: globals_init_def)
  have c: "setFanRpm_rpm ?g 50 = Some 3333" by code_simp
  have d: "setFanRpm_rpm ?g 45 = Some 1666" by code_simp
  show ?thesis using setFanRpm_rpm_monotone[OF a b c] a c d by simp
qed

text \<open>
  C4 as stated fails in two ways. With negative duties (\<open>RPM_MAX = - 20000000\<close>,
  \<open>RPM_MIN = RPM_OFF = - 20000001\<close>) and a range of 16777232 degrees (\<open>TEMP_LOW = - 16777231\<close>,
  \<open>TEMP_MAX = 1\<close>) the percentage at \<open>t2 = 0\<close> rounds to the \<open>float\<close> above 100, and the
  duty there is below the duty at \<open>t1 = - 1\<close>. With \<open>RPM_MAX = 30000000\<close> and the default
  temperatures the product of line 102 at 54 degrees is beyond \<open>INT_MAX\<close>, and no duty
  is computed.
\<close>

theorem setFanRpm_rpm_not_monotone:
  "initFanControl (Scanned [18, - 20000000, - 20000001, - 20000001, 1, - 16777231] None) globals_init
     = Some (globals_init\<lparr>RPM_MAX := - 20000000, RPM_MIN := - 20000001, RPM_OFF := - 20000001,
                            TEMP_MAX := 1, TEMP_LOW := - 16777231,
                            tempLimitDiffPct := 2684357 / 16\<rparr>)
   \<and> getCurrTemp (Millidegrees (- 1500)) = Some (- 1)
   \<and> getCurrTemp (Millidegrees 0) = Some 0
   \<and> setFanRpm_rpm (globals_init\<lparr>RPM_MAX := - 20000000, RPM_MIN := - 20000001,
                                    RPM_OFF := - 20000001, TEMP_MAX := 1, TEMP_LOW := - 16777231,
                                    tempLimitDiffPct := 2684357 / 16\<rparr>) (- 1) = Some (- 20000000)
   \<and> setFanRpm_rpm (globals_init\<lparr>RPM_MAX := - 20000000, RPM_MIN := - 20000001,
                                    RPM_OFF := - 20000001, TEMP_MAX := 1, TEMP_LOW := - 16777231,
                                    tempLimitDiffPct := 2684357 / 16\<rparr>) 0 = Some (- 20000001)
   \<and> initFanControl (Scanned [18, 30000000] None) globals_init
     = Some (globals_init\<lparr>RPM_MAX := 30000000, tempLimitDiffPct := 5033165 / 33554432\<rparr>)
   \<and> getCurrTemp (Millidegrees 54000) = Some 54
   \<and> setFanRpm_rpm (globals_init\<lparr>RPM_MAX := 30000000,
                                    tempLimitDiffPct := 5033165 / 33554432\<rparr>) 54 = None"
  by code_simp

text \<open>
  C5 (as amended). \<open>lastRpm\<close> starts at 0, which is the default \<open>RPM_OFF\<close> and the duty
  that \<open>setupPwm\<close> has just written in the default configuration; it is not a value
  outside the duties. In the first iteration of the loop the computed duty is written to
  the pin if and only if it is not 0.
\<close>

theorem first_iteration_write:
  assumes "initFanControl confFile globals_init = Some g"
    and "setupPwm g h = (g1, h1)"
    and "setFanRpm thermalFile g1 h1 = Some (g2, h2)"
  shows "lastRpm g1 = 0
         \<and> getCurrTemp thermalFile \<bind> setFanRpm_rpm g1 = Some (lastRpm g2)
         \<and> h2 = (if lastRpm g2 = 0 then h1 else setFanSpeed (PWM_PIN g1) (lastRpm g2) h1)
         \<and> calls h2 = (if lastRpm g2 = 0 then calls h1
                        else calls h1 @ [PWM (PWM_PIN g1) (lastRpm g2)])"
proof -
  have "lastRpm g = 0" using initFanControl_kept(2)[OF assms(1)] by (simp add: globals_init_def)
  moreover have "g1 = g\<lparr>origPwmPinMode := pin_mode h (PWM_PIN g)\<rparr>"
    using setupPwm_globals[of g h] assms(2) by simp
  ultimately have l: "lastRpm g1 = 0" by simp
  obtain currTemp rpm where c: "getCurrTemp thermalFile = Some currTemp"
    and r: "setFanRpm_rpm g1 currTemp = Some rpm"
    and g2: "g2 = g1\<lparr>lastRpm := rpm\<rparr>"
    and h2: "h2 = (if lastRpm g1 \<noteq> rpm then setFanSpeed (PWM_PIN g1) rpm h1 else h1)"
    using assms(3) by (auto simp: setFanRpm_def bind_eq_Some_conv)
  show ?thesis using l c r g2 h2 by (auto simp: setFanSpeed_def gpioPWM_def)
qed

theorem first_iteration_write_witness:
  "initFanControl Missing globals_init = Some (globals_init\<lparr>tempLimitDiffPct := 5033165 / 33554432\<rparr>)
   \<and> calls (snd (setupPwm (globals_init\<lparr>tempLimitDiffPct := 5033165 / 33554432\<rparr>) gpio_init))
       = [SetMode 18 1, SetPWMfrequency 18 25000, SetPWMrange 18 5000, PWM 18 0]
   \<and> map_option (\<lambda>(g2, h2). (lastRpm g2, calls h2))
        (setFanRpm (Millidegrees 47000)
           (fst (setupPwm (globals_init\<lparr>tempLimitDiffPct := 5033165 / 33554432\<rparr>) gpio_init))
           (snd (setupPwm (globals_init\<lparr>tempLimitDiffPct := 5033165 / 33554432\<rparr>) gpio_init)))
       = Some (2333, [SetMode 18 1, SetPWMfrequency 18 25000, SetPWMrange 18 5000, PWM 18 0, PWM 18 2333])"
proof -
  let ?g = "globals_init\<lparr>tempLimitDiffPct := 5033165 / 33554432\<rparr>"
  let ?g1 = "fst (setupPwm ?g gpio_init)"
  let ?h1 = "snd (setupPwm ?g gpio_init)"
  let ?g2 = "?g1\<lparr>lastRpm := 2333\<rparr>"
  let ?h2 = "setFanSpeed 18 2333 ?h1"
  have a: "initFanControl Missing globals_init = Some ?g" by code_simp
  have b: "setupPwm ?g gpio_init = (?g1, ?h1)" by simp
  have t: "getCurrTemp (Millidegrees 47000) = Some 47" by code_simp
  have r: "setFanRpm_rpm ?g1 47 = Some 2333" by code_simp
  have l: "lastRpm ?g1 = 0" "PWM_PIN ?g1 = 18" by code_simp+
  have c: "setFanRpm (Millidegrees 47000) ?g1 ?h1 = Some (?g2, ?h2)"
    by (simp add: setFanRpm_def t r l)
  have d: "calls ?h1 = [SetMode 18 1, SetPWMfrequency 18 25000, SetPWMrange 18 5000, PWM 18 0]"
    by code_simp
  have e: "PWM_PIN ?g1 = 18" by code_simp
  show ?thesis using first_iteration_write[OF a b c] a c d e by simp
qed

text \<open>
  C5 as stated fails in the default configuration when the first reading is 35 degrees:
  the duty is 0, equal to the initial \<open>lastRpm\<close>, and the first iteration leaves the
  hardware, and its journal of calls, as \<open>setupPwm\<close> left them.
\<close>

theorem first_iteration_no_write:
  "initFanControl Missing globals_init = Some (globals_init\<lparr>tempLimitDiffPct := 5033165 / 33554432\<rparr>)
   \<and> setFanRpm (Millidegrees 35000)
         (fst (setupPwm (globals_init\<lparr>tempLimitDiffPct := 5033165 / 33554432\<rparr>) gpio_init))
         (snd (setupPwm (globals_init\<lparr>tempLimitDiffPct := 5033165 / 33554432\<rparr>) gpio_init))
       = Some (fst (setupPwm (globals_init\<lparr>tempLimitDiffPct := 5033165 / 33554432\<rparr>) gpio_init),
               snd (setupPwm (globals_init\<lparr>tempLimitDiffPct := 5033165 / 33554432\<rparr>) gpio_init))"
proof -
  let ?g = "globals_init\<lparr>tempLimitDiffPct := 5033165 / 33554432\<rparr>"
  let ?g1 = "fst (setupPwm ?g gpio_init)"
  have a: "initFanControl Missing globals_init = Some ?g" by code_simp
  have t: "getCurrTemp (Millidegrees 35000) = Some 35" by code_simp
  have r: "setFanRpm_rpm ?g1 35 = Some 0" by code_simp
  have l: "lastRpm ?g1 = 0" by code_simp
  have e: "?g1\<lparr>lastRpm := 0\<rparr> = ?g1" by code_simp
  have "setFanRpm (Millidegrees 35000) ?g1 (snd (setupPwm ?g gpio_init))
          = Some (?g1\<lparr>lastRpm := 0\<rparr>, snd (setupPwm ?g gpio_init))"
    by (simp add: setFanRpm_def t r l)
  then have "setFanRpm (Millidegrees 35000) ?g1 (snd (setupPwm ?g gpio_init))
          = Some (?g1, snd (setupPwm ?g gpio_init))"
    by (simp only: e)
  with a show ?thesis by (rule conjI)
qed

text \<open>
  C6 (as amended). When the content of the sensor file cannot be parsed as an integer,
  \<open>getCurrTemp\<close> reports no error: it returns 0 degrees, and \<open>setFanRpm\<close> acts exactly as
  for a reading of 0 millidegrees.
\<close>

theorem getCurrTemp_Unparsable:
  "getCurrTemp Unparsable = Some 0
   \<and> setFanRpm Unparsable g h = setFanRpm (Millidegrees 0) g h"
proof -
  have a: "getCurrTemp Unparsable = Some 0" by code_simp
  have b: "getCurrTemp (Millidegrees 0) = Some 0" by code_simp
  show ?thesis by (simp add: setFanRpm_def a b)
qed

text \<open>
  C6 as stated fails: the result for an unparsable file is the ordinary value 0, the same
  as for the readings 0 and 499, not an error that the caller can tell from a temperature.
\<close>

theorem getCurrTemp_Unparsable_as_reading:
  "getCurrTemp Unparsable = Some 0 \<and> getCurrTemp (Millidegrees 0) = Some 0
   \<and> getCurrTemp (Millidegrees 499) = Some 0"
  by code_simp

text \<open>
  C7 (as amended). When the configuration file is absent, loading succeeds and every field
  keeps its default. When it is present and loading completes, \<open>fscanf\<close> has overridden
  the fields in the fixed order \<open>PWM_PIN\<close>, \<open>RPM_MAX\<close>, \<open>RPM_MIN\<close>, \<open>RPM_OFF\<close>, \<open>TEMP_MAX\<close>,
  \<open>TEMP_LOW\<close>, \<open>WAIT\<close>, \<open>thermalFilename\<close>, up to the first one that fails to parse: the
  fields read before the failure are overridden, the fields from there on keep their
  defaults, and \<open>FREQUENCY\<close> always keeps 25000. (Loading does not complete, by
  \<open>initFanControl_undefined_iff\<close>, when the path read has 38 characters or more, or
  \<open>TEMP_MAX - TEMP_LOW\<close> is not an \<open>int\<close>.)
\<close>

theorem initFanControl_fields:
  "initFanControl Missing globals_init = Some (globals_init\<lparr>tempLimitDiffPct := 5033165 / 33554432\<rparr>)
   \<and> (initFanControl (Scanned ds s) globals_init = Some g \<longrightarrow>
        PWM_PIN g = (if 0 < length ds then ds ! 0 else 18)
        \<and> RPM_MAX g = (if 1 < length ds then ds ! 1 else 5000)
        \<and> RPM_MIN g = (if 2 < length ds then ds ! 2 else 1500)
        \<and> RPM_OFF g = (if 3 < length ds then ds ! 3 else 0)
        \<and> TEMP_MAX g = (if 4 < length ds then ds ! 4 else 55)
        \<and> TEMP_LOW g = (if 5 < length ds then ds ! 5 else 40)
        \<and> WAIT g = (if 6 < length ds then ds ! 6 else 5000)
        \<and> thermalFilename g = (case s of Some w \<Rightarrow> if 7 \<le> length ds then w
                                               else ''/sys/class/thermal/thermal_zone0/temp''
                                 | None \<Rightarrow> ''/sys/class/thermal/thermal_zone0/temp'')
        \<and> FREQUENCY g = 25000)"
proof -
  have m: "initFanControl Missing globals_init = Some (globals_init\<lparr>tempLimitDiffPct := 5033165 / 33554432\<rparr>)"
    by code_simp
  have c: "initFanControl (Scanned ds s) globals_init = Some g \<longrightarrow>
        PWM_PIN g = (if 0 < length ds then ds ! 0 else 18)
        \<and> RPM_MAX g = (if 1 < length ds then ds ! 1 else 5000)
        \<and> RPM_MIN g = (if 2 < length ds then ds ! 2 else 1500)
        \<and> RPM_OFF g = (if 3 < length ds then ds ! 3 else 0)
        \<and> TEMP_MAX g = (if 4 < length ds then ds ! 4 else 55)
        \<and> TEMP_LOW g = (if 5 < length ds then ds ! 5 else 40)
        \<and> WAIT g = (if 6 < length ds then ds ! 6 else 5000)
        \<and> thermalFilename g = (case s of Some w \<Rightarrow> if 7 \<le> length ds then w
                                               else ''/sys/class/thermal/thermal_zone0/temp''
                                 | None \<Rightarrow> ''/sys/class/thermal/thermal_zone0/temp'')
        \<and> FREQUENCY g = 25000"
    unfolding initFanControl_def fscanf_conf_eq
    by (auto simp: bind_eq_Some_conv globals_init_def split: if_splits option.splits)
  show ?thesis using m c by (rule conjI)
qed

theorem initFanControl_fields_witness:
  "initFanControl (Scanned [12] None) globals_init
     = Some (globals_init\<lparr>PWM_PIN := 12, tempLimitDiffPct := 5033165 / 33554432\<rparr>)
   \<and> PWM_PIN (globals_init\<lparr>PWM_PIN := 12, tempLimitDiffPct := 5033165 / 33554432\<rparr>) = 12
   \<and> RPM_MAX (globals_init\<lparr>PWM_PIN := 12, tempLimitDiffPct := 5033165 / 33554432\<rparr>) = 5000
   \<and> FREQUENCY (globals_init\<lparr>PWM_PIN := 12, tempLimitDiffPct := 5033165 / 33554432\<rparr>) = 25000"
proof -
  have a: "initFanControl (Scanned [12] None) globals_init
             = Some (globals_init\<lparr>PWM_PIN := 12, tempLimitDiffPct := 5033165 / 33554432\<rparr>)"
    by code_simp
  show ?thesis
    using initFanControl_fields[of "[12]" None
        "globals_init\<lparr>PWM_PIN := 12, tempLimitDiffPct := 5033165 / 33554432\<rparr>"] a
    by simp
qed

text \<open>
  C7 as stated fails on a file that fails to parse after its first field, such as
  \<^verbatim>\<open>PWM_PIN=12 RPM_MAX=x\<close>: \<open>PWM_PIN\<close> is 12, not its default 18.
\<close>

theorem initFanControl_partial_parse:
  "PWM_PIN globals_init = 18
   \<and> initFanControl (Scanned [12] None) globals_init
       = Some (globals_init\<lparr>PWM_PIN := 12, tempLimitDiffPct := 5033165 / 33554432\<rparr>)
   \<and> PWM_PIN (globals_init\<lparr>PWM_PIN := 12, tempLimitDiffPct := 5033165 / 33554432\<rparr>) = 12"
  by code_simp

text \<open>
  C8. Whatever the mode \<open>m\<close> of the PWM pin before \<open>setupPwm\<close>: \<open>setupPwm\<close> records \<open>m\<close> in
  \<open>origPwmPinMode\<close> and makes the pin an output, and \<open>cleanup\<close> after it leaves the pin in
  mode \<open>m\<close>; the calls of \<open>cleanup\<close> are the write of \<open>RPM_OFF\<close>, then the restoring of the
  mode, then the release of the library.
\<close>

theorem setupPwm_cleanup_restores_mode:
  "origPwmPinMode (fst (setupPwm g h)) = pin_mode h (PWM_PIN g)
   \<and> pin_mode (snd (setupPwm g h)) (PWM_PIN g) = PI_OUTPUT
   \<and> pin_mode (cleanup (fst (setupPwm g h)) (snd (setupPwm g h))) (PWM_PIN g)
       = pin_mode h (PWM_PIN g)
   \<and> calls (cleanup (fst (setupPwm g h)) (snd (setupPwm g h)))
       = calls (snd (setupPwm g h))
         @ [PWM (PWM_PIN g) (RPM_OFF g), SetMode (PWM_PIN g) (pin_mode h (PWM_PIN g)), Terminate]"
  by (simp add: setupPwm_def cleanup_def Let_def getPinMode_def setFanSpeed_def gpioGetMode_def
      gpioSetMode_def gpioSetPWMfrequency_def gpioSetPWMrange_def gpioPWM_def gpioTerminate_def)

theorem setupPwm_cleanup_restores_mode_witness:
  "pin_mode (cleanup (fst (setupPwm globals_init (gpio_init\<lparr>pin_mode := (\<lambda>_. 4)\<rparr>)))
                     (snd (setupPwm globals_init (gpio_init\<lparr>pin_mode := (\<lambda>_. 4)\<rparr>)))) 18 = 4"
  using setupPwm_cleanup_restores_mode[of globals_init "gpio_init\<lparr>pin_mode := (\<lambda>_. 4)\<rparr>"]
  by (simp add: globals_init_def gpio_init_def)

text \<open>
  C9 (as amended). For every reading \<open>n\<close> of the sensor with \<open>0 \<le> n < 16777216\<close>
  millidegrees, the readings that a \<open>float\<close> holds exactly, \<open>getCurrTemp\<close> returns \<open>n\<close>
  rounded to the nearest whole degree, a half rounding up: \<open>(n + 500) div 1000\<close>.
\<close>

theorem getCurrTemp_rounds:
  assumes n: "0 \<le> n" "n < 16777216"
  shows "getCurrTemp (Millidegrees n) = Some ((n + 500) div 1000)"
proof -
  define x :: rat where "x = of_int n / 1000"
  define k where "k = (n + 500) div 1000"
  define q where "q = fl 24 x"
  define s where "s = fl 53 (q + 1 / 2)"
  have k: "0 \<le> k" "k \<le> 16777" using n by (simp_all add: k_def)
  have kn: "1000 * k - 500 \<le> n" "n \<le> 1000 * k + 499" by (simp_all add: k_def) 
  have x_lo: "of_int k - 1 / 2 \<le> x"
  proof -
    have "(of_int (1000 * k - 500) :: rat) \<le> of_int n" using kn(1) by (simp only: of_int_le_iff)
    then show ?thesis by (simp add: x_def)
  qed
  have x_hi: "x \<le> of_int k + 499 / 1000"
  proof -
    have "(of_int n :: rat) \<le> of_int (1000 * k + 499)" using kn(2) by (simp only: of_int_le_iff)
    then show ?thesis by (simp add: x_def)
  qed
  have g: "getCurrTemp (Millidegrees n) = float_to_int s"
    using n by (simp add: getCurrTemp_def double_add_def float_div_def int_to_float_exact s_def q_def x_def)
  have q_lo: "of_int k - 1 / 2 \<le> q"
  proof -
    have "fl 24 (of_int (2 * k - 1) * 2 powi (- 1)) = of_int (2 * k - 1) * 2 powi (- 1)"
      using k by (intro fl_exact) simp_all
    moreover have "of_int (2 * k - 1) * 2 powi (- 1) = (of_int k - 1 / 2 :: rat)"
      by (simp add: field_simps)
    ultimately have "fl 24 (of_int k - 1 / 2) = of_int k - 1 / 2" by (simp only:)
    then show ?thesis using fl_mono[of 24, OF _ x_lo] by (simp add: q_def)
  qed
  have q_hi: "q \<le> of_int k + 499 / 1000 + 1 / 1024"
  proof (cases "x = 0")
    case True
    then show ?thesis using k by (simp add: q_def)
  next
    case False
    then have x: "0 < x" using n by (simp add: x_def)
    have "x < 2 powi 15"
    proof -
      have "(of_int n :: rat) < of_int 16777216" using n(2) by (simp only: of_int_less_iff)
      then show ?thesis by (simp add: x_def)
    qed
    then have "ilog2 x < 15" by (rule ilog2_less[OF x])
    then have "ilog2 x - 24 \<le> - 10" by simp
    then have "(2::rat) powi (ilog2 x - 24) \<le> 2 powi (- 10)"
      by (intro power_int_increasing) simp_all
    then have "\<bar>q - x\<bar> \<le> 1 / 1024" using fl_error_pos[OF x, of 24] by (simp add: q_def)
    then show ?thesis using x_hi by linarith
  qed
  have s_lo: "of_int k \<le> s"
  proof -
    have "fl 53 (of_int k) = of_int k" using k by (intro fl_of_int) simp_all
    moreover have "of_int k \<le> q + 1 / 2" using q_lo by simp
    ultimately show ?thesis using fl_mono[of 53 "of_int k" "q + 1 / 2"] by (simp add: s_def)
  qed
  have s_hi: "s < of_int k + 1"
  proof -
    have "fl 53 (of_int ((k + 1) * 65536 - 1) * 2 powi (- 16)) = of_int ((k + 1) * 65536 - 1) * 2 powi (- 16)"
      using k by (intro fl_exact) simp_all
    moreover have "of_int ((k + 1) * 65536 - 1) * 2 powi (- 16) = (of_int k + 1 - 1 / 65536 :: rat)"
      by (simp add: field_simps)
    ultimately have e: "fl 53 (of_int k + 1 - 1 / 65536) = of_int k + 1 - 1 / 65536"
      by (simp only:)
    have "q + 1 / 2 \<le> of_int k + 1 - 1 / 65536" using q_hi by simp
    then have "s \<le> of_int k + 1 - 1 / 65536"
      using fl_mono[of 53 "q + 1 / 2" "of_int k + 1 - 1 / 65536"] e by (simp add: s_def)
    then show ?thesis by simp
  qed
  have "float_to_int s = Some k"
    using s_lo s_hi k by (intro float_to_int_floor) (simp_all add: INT_MAX_def)
  then show ?thesis by (simp add: g k_def)
qed

theorem getCurrTemp_rounds_witness:
  "getCurrTemp (Millidegrees 41499) = Some 41 \<and> getCurrTemp (Millidegrees 41500) = Some 42"
  using getCurrTemp_rounds[of 41499] getCurrTemp_rounds[of 41500] by simp

text \<open>
  C9 as stated fails at the reading 16777499: its conversion to \<open>float\<close> rounds to
  16777500, and \<open>getCurrTemp\<close> returns 16778, where the nearest whole degree is 16777.
\<close>

theorem getCurrTemp_rounds_large:
  "getCurrTemp (Millidegrees 16777499) = Some 16778 \<and> (16777499 + 500) div 1000 = (16777 :: int)"
  by code_simp

text \<open>
  C10. For every argument \<open>w\<close> of \<open>delay\<close> the interval passed to \<open>nanosleep\<close> is exactly
  \<open>w\<close> milliseconds: \<open>tv_sec\<close> seconds and \<open>tv_nsec\<close> nanoseconds make \<open>w * 1000000\<close>
  nanoseconds, with \<open>0 \<le> tv_nsec < 1000000000\<close>; neither field overflows its type.
\<close>

theorem delay_exact:
  "sint (tv_sec (delay w)) * 1000000000 + sint (tv_nsec (delay w)) = uint w * 1000000
   \<and> 0 \<le> sint (tv_nsec (delay w)) \<and> sint (tv_nsec (delay w)) < 1000000000"
proof -
  have w: "0 \<le> uint w" "uint w < 4294967296" using uint_bounded[of w] by simp_all
  have d: "uint (w div 1000) = uint w div 1000" by (simp add: uint_div)
  have m: "uint (w mod 1000) = uint w mod 1000" by (simp add: uint_mod)
  have n: "uint (w mod 1000 * 1000000) = (uint w mod 1000) * 1000000"
  proof -
    have "uint (w mod 1000 * 1000000) = (uint w mod 1000) * 1000000 mod 4294967296"
      by (simp add: uint_word_ariths m)
    moreover have "(uint w mod 1000) * 1000000 < 4294967296" "0 \<le> (uint w mod 1000) * 1000000"
      using w by simp_all
    ultimately show ?thesis by simp
  qed
  have s: "sint (tv_sec (delay w)) = uint w div 1000"
    using w by (simp add: delay_def sint_small d)
  have ns: "sint (tv_nsec (delay w)) = (uint w mod 1000) * 1000000"
    using w by (simp add: delay_def sint_small n)
  define a b where "a = uint w div 1000" and "b = uint w mod 1000"
  have u: "uint w = a * 1000 + b" by (simp add: a_def b_def)
  have b: "0 \<le> b" "b < 1000" by (simp_all add: b_def)
  have "a * 1000000000 + b * 1000000 = uint w * 1000000" by (simp add: u)
  moreover have "0 \<le> b * 1000000" "b * 1000000 < 1000000000" using b by simp_all
  ultimately show ?thesis unfolding s ns a_def b_def by simp
qed

theorem delay_exact_witness:
  "sint (tv_sec (delay 5000)) = 5 \<and> sint (tv_nsec (delay 5000)) = 0
   \<and> sint (tv_sec (delay 4294967295)) = 4294967 \<and> sint (tv_nsec (delay 4294967295)) = 295000000"
  using delay_exact[of 5000] delay_exact[of 4294967295]
  by (simp add: delay_def)

end
